theory Spec2Isabelle
  imports Complex_Main
begin

section \<open>Checkout-to-order reconciliation of XRoboFly-BE (payment.controller.js)\<close>

text \<open>
  The three request handlers of \<^verbatim>\<open>src/controller/payment.controller.js\<close> are embedded as
  functions over an explicit store: the Order collection, the Product collection and the
  Redis keyspace of pending reservations. Everything the handlers obtain from outside
  (the gateway's answers, the generated ids, the clock, the environment variables, the
  HMAC primitive) is an argument. A thrown exception is the \<open>Inl\<close> branch of a sum, so
  each \<^verbatim>\<open>try/catch\<close> of the source is a case distinction of the model.

  Amounts are integers (rupees). The one division of the source, by \<^verbatim>\<open>1.05\<close>, is taken
  over the rationals; \<^verbatim>\<open>Math.round\<close> rounds a half towards plus infinity.
\<close>

subsection \<open>JavaScript values\<close>

text \<open>A string is truthy when it is not empty; \<^verbatim>\<open>undefined\<close> is \<open>None\<close>.\<close>

definition truthy :: "string \<Rightarrow> bool" where
  "truthy x = (x \<noteq> [])"

definition falsy :: "string \<Rightarrow> bool" where
  "falsy x = (x = [])"

fun truthy_opt :: "string option \<Rightarrow> bool" where
  "truthy_opt None = False"
| "truthy_opt (Some x) = truthy x"

text \<open>\<^verbatim>\<open>a || b\<close> on optional strings.\<close>

fun js_or :: "string option \<Rightarrow> string option \<Rightarrow> string option" where
  "js_or None b = b"
| "js_or (Some x) b = (if truthy x then Some x else b)"

datatype error =
    GatewayError string
  | DuplicateKeyError string
  | TypeError string
  | RangeError string

fun error_message :: "error \<Rightarrow> string" where
  "error_message (GatewayError m) = m"
| "error_message (DuplicateKeyError m) = m"
| "error_message (TypeError m) = m"
| "error_message (RangeError m) = m"

subsection \<open>Data model\<close>

record product =
  name :: string
  price :: int
  stock :: int
  images :: "string list"

text \<open>An element of \<^verbatim>\<open>req.body.products\<close>.\<close>

record cart_line =
  productId :: string
  quantity :: int

text \<open>An element of \<^verbatim>\<open>orderProducts\<close>, the frozen lines of a reservation.\<close>

record snapshot_line =
  sl_productId :: string
  sl_name :: string
  sl_price :: int
  sl_quantity :: int
  sl_image :: string

record customer =
  c_name :: string
  c_email :: string
  c_phone :: string

text \<open>The JSON document stored under \<^verbatim>\<open>pending_order:<id>\<close>.\<close>

record reservation =
  userId :: "string option"
  customerDetails :: customer
  shippingAddress :: string
  products :: "snapshot_line list"
  subtotal :: int
  shipping :: int
  tax :: int
  discount :: int
  totalAmount :: int
  createdAt :: nat

record order_item =
  oi_product :: string
  oi_quantity :: int
  oi_price :: int

record order =
  oid :: nat
  user :: "string option"
  items :: "order_item list"
  o_totalAmount :: int
  o_shippingAddress :: string
  o_billingAddress :: string
  orderStatus :: string
  cashfreeOrderId :: string
  cashfreePaymentId :: "string option"

record store =
  orders :: "order list"
  catalog :: "string \<rightharpoonup> product"
  redis :: "string \<rightharpoonup> reservation"
  next_oid :: nat

text \<open>What the process reads from its environment, and the HMAC-SHA256 primitive of
  \<^verbatim>\<open>crypto\<close> with its base64 digest (key, then message).\<close>

record env =
  CASHFREE_SECRET_KEY :: "string option"
  hmac_sha256_base64 :: "string \<Rightarrow> string \<Rightarrow> string"

datatype payload =
    NoPayload
  | OrderPayload order
  | StatusPayload string
  | SessionPayload string string int

record response =
  status :: nat
  success :: bool
  message :: "string option"
  payload :: payload

definition respond :: "nat \<Rightarrow> bool \<Rightarrow> string option \<Rightarrow> payload \<Rightarrow> response" where
  "respond c ok m p = \<lparr>status = c, success = ok, message = m, payload = p\<rparr>"

subsection \<open>Collections\<close>

text \<open>The keys of the reservations and their time to live in seconds. Expiry is the work
  of Redis itself: an expired key is a key that \<open>redis_get\<close> no longer finds.\<close>

definition PENDING_ORDER_TTL :: nat where
  "PENDING_ORDER_TTL = 3600"

definition PENDING_KEY :: "string \<Rightarrow> string" where
  "PENDING_KEY i = ''pending_order:'' @ i"

definition redis_set :: "string \<Rightarrow> reservation \<Rightarrow> store \<Rightarrow> store" where
  "redis_set k v s = s\<lparr>redis := (redis s)(k \<mapsto> v)\<rparr>"

definition redis_get :: "string \<Rightarrow> store \<Rightarrow> reservation option" where
  "redis_get k s = redis s k"

definition redis_del :: "string \<Rightarrow> store \<Rightarrow> store" where
  "redis_del k s = s\<lparr>redis := (redis s)(k := None)\<rparr>"

text \<open>\<^verbatim>\<open>Order.findOne({ cashfreeOrderId: orderId })\<close>\<close>

definition Order_findOne :: "string \<Rightarrow> store \<Rightarrow> order option" where
  "Order_findOne g s = find (\<lambda>x. cashfreeOrderId x = g) (orders s)"

text \<open>
  Modelled from the spec: the schema of the Order collection (\<^verbatim>\<open>models/Order.model.js\<close>)
  is not among the sources. The spec gives it a unique index on the gateway order id, so
  \<^verbatim>\<open>Order.create\<close> rejects a document whose \<^verbatim>\<open>cashfreeOrderId\<close> is already stored with a
  duplicate-key error; otherwise the document is stored under a fresh \<^verbatim>\<open>_id\<close>.
\<close>

definition Order_create :: "order \<Rightarrow> store \<Rightarrow> error + (order \<times> store)" where
  "Order_create doc s =
     (if cashfreeOrderId doc \<in> set (map cashfreeOrderId (orders s))
      then Inl (DuplicateKeyError ''E11000 duplicate key error'')
      else (let created = doc\<lparr>oid := next_oid s\<rparr>
            in Inr (created, s\<lparr>orders := orders s @ [created], next_oid := Suc (next_oid s)\<rparr>)))"

definition Order_findByIdAndDelete :: "nat \<Rightarrow> store \<Rightarrow> store" where
  "Order_findByIdAndDelete i s = s\<lparr>orders := filter (\<lambda>x. oid x \<noteq> i) (orders s)\<rparr>"

text \<open>\<^verbatim>\<open>order.save()\<close> writes the document back under its \<^verbatim>\<open>_id\<close>.\<close>

definition Order_save :: "order \<Rightarrow> store \<Rightarrow> store" where
  "Order_save doc s = s\<lparr>orders := map (\<lambda>x. if oid x = oid doc then doc else x) (orders s)\<rparr>"

definition Product_findById :: "string \<Rightarrow> store \<Rightarrow> product option" where
  "Product_findById i s = catalog s i"

text \<open>
  \<^verbatim>\<open>Product.findOneAndUpdate({ _id, stock: { $gte: q } }, { $inc: { stock: -q } }, { new: true })\<close>:
  one conditional update; the result is the updated document, or \<open>None\<close> when no document
  matched the filter.
\<close>

definition Product_findOneAndUpdate :: "string \<Rightarrow> int \<Rightarrow> store \<Rightarrow> product option \<times> store" where
  "Product_findOneAndUpdate i q s =
     (case catalog s i of
        None \<Rightarrow> (None, s)
      | Some p \<Rightarrow>
          if q \<le> stock p
          then (let p' = p\<lparr>stock := stock p - q\<rparr>
                in (Some p', s\<lparr>catalog := (catalog s)(i \<mapsto> p')\<rparr>))
          else (None, s))"

subsection \<open>Webhook signature\<close>

text \<open>\<^verbatim>\<open>crypto.timingSafeEqual\<close> throws when the two buffers differ in length.\<close>

definition timingSafeEqual :: "string \<Rightarrow> string \<Rightarrow> error + bool" where
  "timingSafeEqual a b =
     (if length a = length b then Inr (a = b)
      else Inl (RangeError ''Input buffers must have the same byte length''))"

definition verifyCashfreeWebhook :: "env \<Rightarrow> string \<Rightarrow> string \<Rightarrow> string \<Rightarrow> error + bool" where
  "verifyCashfreeWebhook e rawBody timestamp signature =
     (case CASHFREE_SECRET_KEY e of
        None \<Rightarrow> Inr False
      | Some key \<Rightarrow>
          if falsy key \<or> falsy rawBody \<or> falsy timestamp \<or> falsy signature then Inr False
          else (let payload = timestamp @ rawBody;
                    expected = hmac_sha256_base64 e key payload
                in timingSafeEqual expected signature))"

subsection \<open>The webhook handler\<close>

datatype wh_order = WhOrder (order_id: "string option")

datatype wh_payment = WhPayment (cf_payment_id: "string option")

record wh_data =
  d_order :: "wh_order option"
  d_payment :: "wh_payment option"

record wh_body =
  b_type :: "string option"
  b_data :: "wh_data option"

record webhook_request =
  x_webhook_timestamp :: "string option"
  x_webhook_signature :: "string option"
  rawBody :: "string option"
  body :: "wh_body option"

text \<open>The guard of lines 364-371: the signature is checked only when both headers are
  present; \<open>Inr True\<close> lets the request through, \<open>Inr False\<close> is the 401.\<close>

definition signature_check :: "env \<Rightarrow> webhook_request \<Rightarrow> error + bool" where
  "signature_check e req =
     (case x_webhook_timestamp req of
        None \<Rightarrow> Inr True
      | Some timestamp \<Rightarrow>
          (case x_webhook_signature req of
             None \<Rightarrow> Inr True
           | Some signature \<Rightarrow>
               if truthy timestamp \<and> truthy signature
               then verifyCashfreeWebhook e (case rawBody req of None \<Rightarrow> [] | Some b \<Rightarrow> b)
                      timestamp signature
               else Inr True))"

text \<open>\<^verbatim>\<open>!data || !data.order || !data.order.order_id\<close>: the order id, when all three are there.\<close>

definition payload_order_id :: "wh_body \<Rightarrow> string option" where
  "payload_order_id b =
     (case b_data b of
        None \<Rightarrow> None
      | Some d \<Rightarrow>
          (case d_order d of
             None \<Rightarrow> None
           | Some ord \<Rightarrow>
               (case order_id ord of
                  None \<Rightarrow> None
                | Some i \<Rightarrow> if truthy i then Some i else None)))"

text \<open>\<^verbatim>\<open>data.payment?.cf_payment_id\<close>\<close>

definition payload_payment_id :: "wh_body \<Rightarrow> string option" where
  "payload_payment_id b =
     (case b_data b of
        None \<Rightarrow> None
      | Some d \<Rightarrow> (case d_payment d of None \<Rightarrow> None | Some p \<Rightarrow> cf_payment_id p))"

text \<open>The \<^verbatim>\<open>switch (type)\<close> of lines 392-416.\<close>

definition webhook_switch :: "string option \<Rightarrow> string option \<Rightarrow> order \<Rightarrow> store \<Rightarrow> store" where
  "webhook_switch type pay ord s =
     (if type = Some ''PAYMENT_SUCCESS_WEBHOOK'' then
        (if orderStatus ord = ''pending''
         then Order_save (ord\<lparr>orderStatus := ''processing'',
                               cashfreePaymentId := js_or pay (cashfreePaymentId ord)\<rparr>) s
         else s)
      else if type = Some ''PAYMENT_FAILED_WEBHOOK'' then
        Order_save (ord\<lparr>orderStatus := ''cancelled''\<rparr>) s
      else if type = Some ''PAYMENT_USER_DROPPED_WEBHOOK'' then
        Order_save (ord\<lparr>orderStatus := ''cancelled''\<rparr>) s
      else s)"

text \<open>The \<^verbatim>\<open>try\<close> block: a response, or the exception it throws, with the store as it
  is at that moment.\<close>

definition cashfreeWebhook_try :: "env \<Rightarrow> webhook_request \<Rightarrow> store \<Rightarrow> (error + response) \<times> store" where
  "cashfreeWebhook_try e req s =
     (case signature_check e req of
        Inl err \<Rightarrow> (Inl err, s)
      | Inr False \<Rightarrow> (Inr (respond 401 False (Some ''Invalid signature'') NoPayload), s)
      | Inr True \<Rightarrow>
          (case body req of
             None \<Rightarrow> (Inl (TypeError ''Cannot destructure property of req.body''), s)
           | Some b \<Rightarrow>
               (case payload_order_id b of
                  None \<Rightarrow> (Inr (respond 200 True (Some ''Webhook acknowledged'') NoPayload), s)
                | Some orderId \<Rightarrow>
                    (case Order_findOne orderId s of
                       None \<Rightarrow> (Inr (respond 200 True (Some ''Order not found'') NoPayload), s)
                     | Some ord \<Rightarrow>
                         (Inr (respond 200 True None NoPayload),
                          webhook_switch (b_type b) (payload_payment_id b) ord s)))))"

definition cashfreeWebhook :: "env \<Rightarrow> webhook_request \<Rightarrow> store \<Rightarrow> response \<times> store" where
  "cashfreeWebhook e req s =
     (case cashfreeWebhook_try e req s of
        (Inr r, s') \<Rightarrow> (r, s')
      | (Inl err, s') \<Rightarrow> (respond 200 True (Some ''Webhook received'') NoPayload, s'))"

subsection \<open>Creating a checkout session\<close>

text \<open>Decimal rendering of a number inside a template string.\<close>

fun show_nat :: "nat \<Rightarrow> string" where
  "show_nat n =
     (if n < 10 then [''0123456789'' ! n]
      else show_nat (n div 10) @ [''0123456789'' ! (n mod 10)])"

declare show_nat.simps [simp del]

definition show_int :: "int \<Rightarrow> string" where
  "show_int i = (if i < 0 then CHR ''-'' # show_nat (nat (- i)) else show_nat (nat i))"

text \<open>\<^verbatim>\<open>/^[0-9a-fA-F]{24}$/.test(item.productId)\<close>\<close>

definition isValidObjectId :: "string \<Rightarrow> bool" where
  "isValidObjectId x = (length x = 24 \<and> list_all (\<lambda>c. c \<in> set ''0123456789abcdefABCDEF'') x)"

text \<open>\<^verbatim>\<open>Math.round\<close>: the nearest integer, a half going up.\<close>

definition Math_round :: "rat \<Rightarrow> int" where
  "Math_round x = \<lfloor>x + 1 / 2\<rfloor>"

record checkout_body =
  cb_customerDetails :: "customer option"
  cb_shippingAddress :: "string option"
  cb_products :: "cart_line list option"

record checkout_request =
  cr_body :: "checkout_body option"
  cr_user :: "string option"

text \<open>What \<^verbatim>\<open>Cashfree.PGCreateOrder\<close> resolves to.\<close>

record cf_order =
  payment_session_id :: string
  cf_order_id :: "string option"

text \<open>Lines 57-76: every line's product is fetched by id; \<open>Inl\<close> carries the id of the
  first line that has none.\<close>

fun fetch_products :: "cart_line list \<Rightarrow> store \<Rightarrow> string + product list" where
  "fetch_products [] s = Inr []"
| "fetch_products (item # rest) s =
     (case (if isValidObjectId (productId item) then Product_findById (productId item) s else None) of
        None \<Rightarrow> Inl (productId item)
      | Some p \<Rightarrow>
          (case fetch_products rest s of
             Inl missing \<Rightarrow> Inl missing
           | Inr ps \<Rightarrow> Inr (p # ps)))"

text \<open>Lines 86-96: the first product whose stock is below the requested quantity.\<close>

fun check_stock :: "cart_line list \<Rightarrow> product list \<Rightarrow> product option" where
  "check_stock (item # rest) (p # ps) =
     (if stock p < quantity item then Some p else check_stock rest ps)"
| "check_stock _ _ = None"

text \<open>Lines 99-115: the running subtotal and the frozen lines.\<close>

fun calculate :: "cart_line list \<Rightarrow> product list \<Rightarrow> int \<Rightarrow> snapshot_line list \<Rightarrow> int \<times> snapshot_line list" where
  "calculate (item # rest) (p # ps) sub acc =
     calculate rest ps (sub + price p * quantity item)
       (acc @ [\<lparr>sl_productId = productId item, sl_name = name p, sl_price = price p,
                sl_quantity = quantity item,
                sl_image = (case images p of [] \<Rightarrow> [] | i # _ \<Rightarrow> i)\<rparr>])"
| "calculate _ _ sub acc = (sub, acc)"

text \<open>
  The \<^verbatim>\<open>try\<close> block of \<^verbatim>\<open>createCheckoutSession\<close>. \<open>now\<close> is \<^verbatim>\<open>Date.now()\<close>, \<open>rnd\<close> the
  random suffix of the order id, \<open>gw\<close> what awaiting \<^verbatim>\<open>Cashfree.PGCreateOrder\<close> gives: the
  order of the gateway, or the error it throws (network failure, non-2xx answer, timeout).
  The request sent to the gateway and the clean-up of the unused in-process map touch
  none of the three stores and are left out.
\<close>

definition createCheckoutSession_try ::
  "nat \<Rightarrow> string \<Rightarrow> error + cf_order \<Rightarrow> checkout_request \<Rightarrow> store \<Rightarrow> (error + response) \<times> store" where
  "createCheckoutSession_try now rnd gw req s =
     (case cr_body req of
        None \<Rightarrow> (Inl (TypeError ''Cannot destructure property of req.body''), s)
      | Some b \<Rightarrow>
     (case (cb_customerDetails b, cb_shippingAddress b, cb_products b) of
        (Some cust, Some addr, Some (l # ls)) \<Rightarrow>
          (let lines = l # ls in
           case fetch_products lines s of
             Inl missing \<Rightarrow>
               (Inr (respond 400 False
                  (Some (''Product not found: '' @ missing @
                     ''. Please ensure you're using valid product IDs from the database.''))
                  NoPayload), s)
           | Inr dbProducts \<Rightarrow>
               if length dbProducts \<noteq> length lines
               then (Inr (respond 400 False (Some ''Some products not found'') NoPayload), s)
               else
               (case check_stock lines dbProducts of
                  Some p \<Rightarrow>
                    (Inr (respond 400 False
                       (Some (''Insufficient stock for '' @ name p @ ''. Available: '' @
                          show_int (stock p)))
                       NoPayload), s)
                | None \<Rightarrow>
                    (let (sub, orderProducts) = calculate lines dbProducts 0 [];
                         subtotalInclGST = sub;
                         shipping = (if subtotalInclGST > 5000 then 0 else 99);
                         baseSubtotal = Math_round (of_int subtotalInclGST / 1.05);
                         tax = subtotalInclGST - baseSubtotal;
                         discount = 0;
                         totalAmount = subtotalInclGST + shipping;
                         orderId = ''XRF_'' @ show_nat now @ ''_'' @ rnd
                     in case gw of
                          Inl err \<Rightarrow> (Inl err, s)
                        | Inr cashfreeResponse \<Rightarrow>
                            (Inr (respond 200 True (Some ''Checkout session created'')
                               (SessionPayload (payment_session_id cashfreeResponse)
                                  (case js_or (cf_order_id cashfreeResponse) (Some orderId) of
                                     None \<Rightarrow> orderId | Some i \<Rightarrow> i)
                                  totalAmount)),
                             redis_set (PENDING_KEY orderId)
                               \<lparr>userId = cr_user req, customerDetails = cust,
                                shippingAddress = addr, products = orderProducts,
                                subtotal = baseSubtotal, shipping = shipping, tax = tax,
                                discount = discount, totalAmount = totalAmount,
                                createdAt = now\<rparr> s))))
      | _ \<Rightarrow> (Inr (respond 400 False (Some ''Missing required fields'') NoPayload), s)))"

definition createCheckoutSession ::
  "nat \<Rightarrow> string \<Rightarrow> error + cf_order \<Rightarrow> checkout_request \<Rightarrow> store \<Rightarrow> response \<times> store" where
  "createCheckoutSession now rnd gw req s =
     (case createCheckoutSession_try now rnd gw req s of
        (Inr r, s') \<Rightarrow> (r, s')
      | (Inl err, s') \<Rightarrow>
          (respond 500 False
             (js_or (Some (error_message err)) (Some ''Failed to create checkout session''))
             NoPayload, s'))"

subsection \<open>Confirming a checkout\<close>

text \<open>An element of what \<^verbatim>\<open>Cashfree.PGOrderFetchPayments\<close> resolves to.\<close>

record payment =
  payment_status :: string
  pay_cf_payment_id :: "string option"

record confirm_request =
  cf_orderId :: "string option"
  cf_user :: "string option"

datatype 'a step = Throw error | Reply response | Continue 'a

text \<open>
  Lines 204-263, everything \<^verbatim>\<open>checkoutSuccess\<close> does before its first write: the order id
  of the body, the payments of the gateway (\<open>pays\<close>: the array the call resolves to, latest
  attempt first, or the error the call throws), the look-up of an Order for the id, the
  reservation, the owner. None of it changes a store.
\<close>

definition confirm_checks ::
  "error + payment list \<Rightarrow> confirm_request \<Rightarrow> store \<Rightarrow> (string \<times> payment \<times> reservation) step" where
  "confirm_checks pays req s =
     (if truthy_opt (cf_orderId req) then
        (let orderId = (case cf_orderId req of None \<Rightarrow> [] | Some i \<Rightarrow> i) in
         case pays of
           Inl err \<Rightarrow> Throw err
         | Inr [] \<Rightarrow> Reply (respond 400 False (Some ''No payment information found'') NoPayload)
         | Inr (latestPayment # _) \<Rightarrow>
             if payment_status latestPayment \<noteq> ''SUCCESS''
             then Reply (respond 400 False (Some ''Payment not completed'')
                           (StatusPayload (payment_status latestPayment)))
             else
             (case Order_findOne orderId s of
                Some existingOrder \<Rightarrow>
                  Reply (respond 200 True (Some ''Order already processed'')
                           (OrderPayload existingOrder))
              | None \<Rightarrow>
                  (case redis_get (PENDING_KEY orderId) s of
                     None \<Rightarrow>
                       Reply (respond 400 False
                                (Some ''Order data not found. Session may have expired.'')
                                NoPayload)
                   | Some orderData \<Rightarrow>
                       if truthy_opt (userId orderData) \<and> cf_user req \<noteq> userId orderData
                       then Reply (respond 403 False (Some ''Unauthorized'') NoPayload)
                       else Continue (orderId, latestPayment, orderData))))
      else Reply (respond 400 False (Some ''Order ID is required'') NoPayload))"

text \<open>
  Lines 282-297: the stock of every line is decremented in turn. At the first line whose
  update matches no document the new Order and the reservation are deleted and the
  handler answers 409.
\<close>

fun decrement_stock :: "nat \<Rightarrow> string \<Rightarrow> snapshot_line list \<Rightarrow> store \<Rightarrow> response option \<times> store" where
  "decrement_stock newId orderId [] s = (None, s)"
| "decrement_stock newId orderId (item # rest) s =
     (case Product_findOneAndUpdate (sl_productId item) (sl_quantity item) s of
        (None, s1) \<Rightarrow>
          (Some (respond 409 False
                   (Some (''Insufficient stock for '' @ sl_name item @
                      ''. Please update your cart and try again.''))
                   NoPayload),
           redis_del (PENDING_KEY orderId) (Order_findByIdAndDelete newId s1))
      | (Some updated, s1) \<Rightarrow> decrement_stock newId orderId rest s1)"

text \<open>The document handed to \<^verbatim>\<open>Order.create\<close> (lines 266-279); its \<^verbatim>\<open>_id\<close> is assigned by
  the collection.\<close>

definition order_document :: "string \<Rightarrow> payment \<Rightarrow> reservation \<Rightarrow> order" where
  "order_document orderId latestPayment orderData =
     \<lparr>oid = 0, user = userId orderData,
      items = map (\<lambda>p. \<lparr>oi_product = sl_productId p, oi_quantity = sl_quantity p,
                        oi_price = sl_price p\<rparr>) (products orderData),
      o_totalAmount = totalAmount orderData,
      o_shippingAddress = shippingAddress orderData,
      o_billingAddress = shippingAddress orderData,
      orderStatus = ''pending'',
      cashfreeOrderId = orderId,
      cashfreePaymentId = pay_cf_payment_id latestPayment\<rparr>"

text \<open>
  Lines 266-346, from \<^verbatim>\<open>Order.create\<close> on. The confirmation mail and the shipment are
  sent inside their own \<^verbatim>\<open>try/catch\<close>, which only logs; they are outside the three
  stores and are left out.
\<close>

definition materialize ::
  "string \<Rightarrow> payment \<Rightarrow> reservation \<Rightarrow> store \<Rightarrow> (error + response) \<times> store" where
  "materialize orderId latestPayment orderData s =
     (case Order_create (order_document orderId latestPayment orderData) s of
        Inl err \<Rightarrow> (Inl err, s)
      | Inr (newOrder, s1) \<Rightarrow>
          (case decrement_stock (oid newOrder) orderId (products orderData) s1 of
             (Some conflict, s2) \<Rightarrow> (Inr conflict, s2)
           | (None, s2) \<Rightarrow>
               (Inr (respond 200 True (Some ''Payment verified and order created'')
                       (OrderPayload newOrder)),
                redis_del (PENDING_KEY orderId) s2)))"

definition checkoutSuccess_try ::
  "error + payment list \<Rightarrow> confirm_request \<Rightarrow> store \<Rightarrow> (error + response) \<times> store" where
  "checkoutSuccess_try pays req s =
     (case confirm_checks pays req s of
        Throw err \<Rightarrow> (Inl err, s)
      | Reply r \<Rightarrow> (Inr r, s)
      | Continue (orderId, latestPayment, orderData) \<Rightarrow>
          materialize orderId latestPayment orderData s)"

text \<open>The \<^verbatim>\<open>catch\<close> of lines 348-354 turns any exception into a 500.\<close>

definition on_error :: "(error + response) \<times> store \<Rightarrow> response \<times> store" where
  "on_error r =
     (case r of
        (Inr res, s') \<Rightarrow> (res, s')
      | (Inl err, s') \<Rightarrow>
          (respond 500 False
             (js_or (Some (error_message err)) (Some ''Failed to verify payment''))
             NoPayload, s'))"

definition checkoutSuccess ::
  "error + payment list \<Rightarrow> confirm_request \<Rightarrow> store \<Rightarrow> response \<times> store" where
  "checkoutSuccess pays req s = on_error (checkoutSuccess_try pays req s)"

subsection \<open>A small shop\<close>

text \<open>
  Two catalogue entries priced as in the spec's scenario (1050 and 525, tax included), a
  cart of one of the first and two of the second, and the reservation that the session
  for this cart stores. The stock of the second product is a parameter.
\<close>

definition frame_id :: string where
  "frame_id = ''64b7f0c2a1d3e4f5a6b7c8d1''"

definition motor_id :: string where
  "motor_id = ''64b7f0c2a1d3e4f5a6b7c8d2''"

definition shop :: "int \<Rightarrow> store" where
  "shop motors =
     \<lparr>orders = [],
      catalog = [frame_id \<mapsto> \<lparr>name = ''Frame'', price = 1050, stock = 5, images = []\<rparr>,
                 motor_id \<mapsto> \<lparr>name = ''Motor'', price = 525, stock = motors, images = []\<rparr>],
      redis = Map.empty, next_oid = 0\<rparr>"

definition alice :: customer where
  "alice = \<lparr>c_name = ''Alice'', c_email = ''alice@example.org'', c_phone = ''9000000000''\<rparr>"

definition cart :: "cart_line list" where
  "cart = [\<lparr>productId = frame_id, quantity = 1\<rparr>, \<lparr>productId = motor_id, quantity = 2\<rparr>]"

definition cart_request :: checkout_request where
  "cart_request =
     \<lparr>cr_body = Some \<lparr>cb_customerDetails = Some alice, cb_shippingAddress = Some ''12 Hill Road'',
                       cb_products = Some cart\<rparr>,
      cr_user = Some ''u1''\<rparr>"

definition booking :: reservation where
  "booking =
     \<lparr>userId = Some ''u1'', customerDetails = alice, shippingAddress = ''12 Hill Road'',
      products = [\<lparr>sl_productId = frame_id, sl_name = ''Frame'', sl_price = 1050,
                   sl_quantity = 1, sl_image = []\<rparr>,
                  \<lparr>sl_productId = motor_id, sl_name = ''Motor'', sl_price = 525,
                   sl_quantity = 2, sl_image = []\<rparr>],
      subtotal = 2000, shipping = 99, tax = 100, discount = 0, totalAmount = 2199,
      createdAt = 7\<rparr>"

text \<open>The shop with the reservation stored under the gateway order id \<open>XRF_7_K\<close>.\<close>

definition booked :: "int \<Rightarrow> store" where
  "booked motors = redis_set (PENDING_KEY ''XRF_7_K'') booking (shop motors)"

definition paid :: "error + payment list" where
  "paid = Inr [\<lparr>payment_status = ''SUCCESS'', pay_cf_payment_id = Some ''885''\<rparr>]"

definition confirm_by :: "string \<Rightarrow> confirm_request" where
  "confirm_by u = \<lparr>cf_orderId = Some ''XRF_7_K'', cf_user = Some u\<rparr>"

text \<open>The Order that confirming the reservation creates.\<close>

definition booked_order :: order where
  "booked_order =
     \<lparr>oid = 0, user = Some ''u1'',
      items = [\<lparr>oi_product = frame_id, oi_quantity = 1, oi_price = 1050\<rparr>,
               \<lparr>oi_product = motor_id, oi_quantity = 2, oi_price = 525\<rparr>],
      o_totalAmount = 2199, o_shippingAddress = ''12 Hill Road'',
      o_billingAddress = ''12 Hill Road'', orderStatus = ''pending'',
      cashfreeOrderId = ''XRF_7_K'', cashfreePaymentId = Some ''885''\<rparr>"

text \<open>An environment with a secret, and a stand-in for the keyed digest: four characters
  of key and message. The theorems hold for every digest function.\<close>

definition test_env :: env where
  "test_env =
     \<lparr>CASHFREE_SECRET_KEY = Some ''k3y'',
      hmac_sha256_base64 = (\<lambda>key msg. take 4 (rev msg @ key @ ''0000''))\<rparr>"

definition event :: "string \<Rightarrow> wh_body" where
  "event t =
     \<lparr>b_type = Some t,
      b_data = Some \<lparr>d_order = Some (WhOrder (Some ''XRF_7_K'')),
                     d_payment = Some (WhPayment (Some ''886''))\<rparr>\<rparr>"

definition placed :: "string \<Rightarrow> store" where
  "placed st = (shop 3)\<lparr>orders := [booked_order\<lparr>orderStatus := st\<rparr>], next_oid := 1\<rparr>"

definition hook :: "string option \<Rightarrow> string \<Rightarrow> wh_body \<Rightarrow> webhook_request" where
  "hook sg raw b =
     \<lparr>x_webhook_timestamp = Some ''1700'', x_webhook_signature = sg, rawBody = Some raw,
      body = Some b\<rparr>"

text \<open>The stock the catalogue records for a product id (0 when it has no entry).\<close>

definition stock_of :: "store \<Rightarrow> string \<Rightarrow> int" where
  "stock_of s i = (case catalog s i of None \<Rightarrow> 0 | Some p \<Rightarrow> stock p)"

text \<open>A gateway answer whose latest payment attempt has not succeeded.\<close>

definition unpaid :: "error + payment list" where
  "unpaid = Inr [\<lparr>payment_status = ''PENDING'', pay_cf_payment_id = None\<rparr>]"

section \<open>Properties\<close>

subsection \<open>Unfolding\<close>

lemmas shop_defs = shop_def booked_def booking_def booked_order_def placed_def frame_id_def motor_id_def
  alice_def cart_def cart_request_def paid_def confirm_by_def test_env_def event_def hook_def

lemmas store_defs = redis_set_def redis_get_def redis_del_def Order_findOne_def Order_create_def
  Order_findByIdAndDelete_def Order_save_def Product_findById_def Product_findOneAndUpdate_def
  PENDING_KEY_def respond_def

lemmas webhook_defs = cashfreeWebhook_def cashfreeWebhook_try_def signature_check_def
  verifyCashfreeWebhook_def timingSafeEqual_def payload_order_id_def payload_payment_id_def
  webhook_switch_def truthy_def falsy_def

subsection \<open>The webhook handler\<close>

lemma find_map_replace:
  "find P xs = Some a \<Longrightarrow> P b \<Longrightarrow> find P (map (\<lambda>x. if f x = f a then b else x) xs) = Some b"
  by (induction xs) (auto split: if_splits)

lemma filter_map_replace:
  "f b = f a \<Longrightarrow> filter (\<lambda>x. f x \<noteq> f a) (map (\<lambda>x. if f x = f a then b else x) xs) = filter (\<lambda>x. f x \<noteq> f a) xs"
  by (induction xs) auto

lemma find_Some_holds: "find P xs = Some a \<Longrightarrow> P a"
  by (induction xs) (auto split: if_splits)

lemma webhook_switch_frame:
  "catalog (webhook_switch t p ord s) = catalog s"
  "redis (webhook_switch t p ord s) = redis s"
  "next_oid (webhook_switch t p ord s) = next_oid s"
  "map oid (orders (webhook_switch t p ord s)) = map oid (orders s)"
  by (auto simp: webhook_switch_def Order_save_def)

lemma webhook_reaches_switch:
  assumes "signature_check e req = Inr True" "body req = Some b"
    "payload_order_id b = Some g" "Order_findOne g s = Some ord"
  shows "cashfreeWebhook e req s =
           (respond 200 True None NoPayload, webhook_switch (b_type b) (payload_payment_id b) ord s)"
  using assms by (simp add: cashfreeWebhook_def cashfreeWebhook_try_def)

text \<open>
  C10. A \<^verbatim>\<open>PAYMENT_SUCCESS_WEBHOOK\<close> that reaches the \<^verbatim>\<open>switch\<close> for an existing Order
  changes the Order only when its \<^verbatim>\<open>orderStatus\<close> is \<^verbatim>\<open>pending\<close>: the status becomes
  \<^verbatim>\<open>processing\<close> and the gateway payment id becomes the one of the payload (the old one is
  kept when the payload has none), while every other Order, the catalogue and the
  reservations stay as they are. For an Order in any other status the whole store is
  left unchanged.
\<close>

theorem success_webhook_touches_pending_only:
  assumes passed: "signature_check e req = Inr True"
    and body: "body req = Some b"
    and type: "b_type b = Some ''PAYMENT_SUCCESS_WEBHOOK''"
    and ident: "payload_order_id b = Some g"
    and found: "Order_findOne g s = Some ord"
  shows "(orderStatus ord \<noteq> ''pending'' \<longrightarrow> snd (cashfreeWebhook e req s) = s) \<and>
         (orderStatus ord = ''pending'' \<longrightarrow>
            (let s' = snd (cashfreeWebhook e req s);
                 ord' = ord\<lparr>orderStatus := ''processing'',
                            cashfreePaymentId := js_or (payload_payment_id b) (cashfreePaymentId ord)\<rparr>
             in Order_findOne g s' = Some ord' \<and>
                filter (\<lambda>x. oid x \<noteq> oid ord) (orders s') = filter (\<lambda>x. oid x \<noteq> oid ord) (orders s) \<and>
                catalog s' = catalog s \<and> redis s' = redis s \<and> next_oid s' = next_oid s))"
proof -
  have run: "snd (cashfreeWebhook e req s) =
               webhook_switch (Some ''PAYMENT_SUCCESS_WEBHOOK'') (payload_payment_id b) ord s"
    using webhook_reaches_switch [OF passed body ident found] type by simp
  have key: "cashfreeOrderId ord = g"
    using find_Some_holds [of "\<lambda>x. cashfreeOrderId x = g" "orders s" ord] found
    by (simp add: Order_findOne_def)
  show ?thesis
  proof (cases "orderStatus ord = ''pending''")
    case False
    then show ?thesis by (simp add: run webhook_switch_def)
  next
    case True
    let ?ord' = "ord\<lparr>orderStatus := ''processing'',
                     cashfreePaymentId := js_or (payload_payment_id b) (cashfreePaymentId ord)\<rparr>"
    have sw: "webhook_switch (Some ''PAYMENT_SUCCESS_WEBHOOK'') (payload_payment_id b) ord s =
                Order_save ?ord' s"
      using True by (simp add: webhook_switch_def)
    have f1: "Order_findOne g (Order_save ?ord' s) = Some ?ord'"
      using find_map_replace [of "\<lambda>x. cashfreeOrderId x = g" "orders s" ord ?ord' oid] found key
      by (simp add: Order_findOne_def Order_save_def)
    have f2: "filter (\<lambda>x. oid x \<noteq> oid ord) (orders (Order_save ?ord' s)) =
                filter (\<lambda>x. oid x \<noteq> oid ord) (orders s)"
      using filter_map_replace [of oid ?ord' ord "orders s"] by (simp add: Order_save_def)
    show ?thesis
      using True f1 f2 by (simp add: run sw Let_def) (simp add: Order_save_def)
  qed
qed

theorem success_webhook_touches_pending_only_witness:
  "snd (cashfreeWebhook test_env (hook None ''ab'' (event ''PAYMENT_SUCCESS_WEBHOOK'')) (placed ''shipped''))
     = placed ''shipped'' \<and>
   map orderStatus (orders (snd (cashfreeWebhook test_env (hook (Some ''ba00'') ''ab''
      (event ''PAYMENT_SUCCESS_WEBHOOK'')) (placed ''pending'')))) = [''processing'']"
proof -
  let ?b = "event ''PAYMENT_SUCCESS_WEBHOOK''"
  have g1: "signature_check test_env (hook None ''ab'' ?b) = Inr True"
    by (simp add: shop_defs webhook_defs)
  have g2: "signature_check test_env (hook (Some ''ba00'') ''ab'' ?b) = Inr True"
    by (simp add: shop_defs webhook_defs)
  have b1: "body (hook None ''ab'' ?b) = Some ?b" "body (hook (Some ''ba00'') ''ab'' ?b) = Some ?b"
    by (simp_all add: hook_def)
  have t: "b_type ?b = Some ''PAYMENT_SUCCESS_WEBHOOK''" by (simp add: event_def)
  have i: "payload_order_id ?b = Some ''XRF_7_K''" by (simp add: event_def webhook_defs)
  have o1: "Order_findOne ''XRF_7_K'' (placed ''shipped'') = Some (booked_order\<lparr>orderStatus := ''shipped''\<rparr>)"
    by (simp add: shop_defs store_defs)
  have o2: "Order_findOne ''XRF_7_K'' (placed ''pending'') = Some (booked_order\<lparr>orderStatus := ''pending''\<rparr>)"
    by (simp add: shop_defs store_defs)
  have A: "snd (cashfreeWebhook test_env (hook None ''ab'' ?b) (placed ''shipped'')) = placed ''shipped''"
    using success_webhook_touches_pending_only [OF g1 b1(1) t i o1] by simp
  have "Order_findOne ''XRF_7_K'' (snd (cashfreeWebhook test_env (hook (Some ''ba00'') ''ab'' ?b) (placed ''pending'')))
        = Some (booked_order\<lparr>orderStatus := ''processing'', cashfreePaymentId := Some ''886''\<rparr>)"
    using success_webhook_touches_pending_only [OF g2 b1(2) t i o2]
    by (simp add: Let_def event_def payload_payment_id_def truthy_def)
  moreover have "map oid (orders (snd (cashfreeWebhook test_env (hook (Some ''ba00'') ''ab'' ?b) (placed ''pending'')))) = [0]"
    by (simp add: webhook_reaches_switch [OF g2 b1(2) i o2] webhook_switch_frame) (simp add: shop_defs)
  ultimately have B: "map orderStatus (orders (snd (cashfreeWebhook test_env (hook (Some ''ba00'') ''ab''
      ?b) (placed ''pending'')))) = [''processing'']"
    by (auto simp: Order_findOne_def split: if_splits)
  show ?thesis using A B by simp
qed











subsection \<open>Creating a checkout session\<close>

lemma Math_round_tax_inclusive: "Math_round (of_int S / 1.05) = (40 * S + 21) div 42"
proof -
  have "(of_int S :: rat) / 1.05 + 1 / 2 = of_int (40 * S + 21) / of_int 42"
    by (simp add: field_simps)
  then show ?thesis
    unfolding Math_round_def by (simp only: floor_divide_of_int_eq)
qed

text \<open>The subtotals the spec lists for the split into base amount and tax.\<close>

lemma tax_split_examples:
  "Math_round (of_int 100 / 1.05) = 95" "Math_round (of_int 5000 / 1.05) = 4762"
  "Math_round (of_int 5001 / 1.05) = 4763" "Math_round (of_int 999999 / 1.05) = 952380"
  by (simp_all only: Math_round_tax_inclusive)




text \<open>
  C7. When the call that opens the gateway session fails (\<open>gw\<close> is an error: network
  failure, non-2xx answer or timeout), \<^verbatim>\<open>createCheckoutSession\<close> leaves the store exactly
  as it was, so no reservation is written, and the answer is a failure, never the 200 of
  a created session.
\<close>

theorem gateway_failure_writes_no_reservation:
  "snd (createCheckoutSession now rnd (Inl err) req s) = s \<and>
   success (fst (createCheckoutSession now rnd (Inl err) req s)) = False \<and>
   status (fst (createCheckoutSession now rnd (Inl err) req s)) \<noteq> 200"
  by (auto simp: createCheckoutSession_def createCheckoutSession_try_def respond_def Let_def
      split: option.splits list.splits sum.splits prod.splits)


theorem gateway_failure_writes_no_reservation_witness:
  "createCheckoutSession 7 ''K'' (Inl (GatewayError ''timeout of 10000ms exceeded'')) cart_request (shop 5)
     = (respond 500 False (Some ''timeout of 10000ms exceeded'') NoPayload, shop 5)"
proof -
  have "fst (createCheckoutSession 7 ''K'' (Inl (GatewayError ''timeout of 10000ms exceeded'')) cart_request (shop 5))
          = respond 500 False (Some ''timeout of 10000ms exceeded'') NoPayload"
    by (simp add: createCheckoutSession_def createCheckoutSession_try_def shop_defs
        isValidObjectId_def Product_findById_def truthy_def Let_def)
  then show ?thesis
    using gateway_failure_writes_no_reservation
      [of 7 "''K''" "GatewayError ''timeout of 10000ms exceeded''" cart_request "shop 5"]
    by (simp add: prod_eq_iff)
qed





subsection \<open>Confirming a checkout\<close>

lemmas confirm_defs = checkoutSuccess_def checkoutSuccess_try_def on_error_def confirm_checks_def
  materialize_def order_document_def

lemma find_None_iff_notin: "find (\<lambda>x. f x = g) xs = None \<longleftrightarrow> g \<notin> set (map f xs)"
  by (induction xs) auto

lemma update_hit:
  "Product_findOneAndUpdate i q s = (Some u, s1) \<Longrightarrow>
     \<exists>p. catalog s i = Some p \<and> q \<le> stock p \<and>
         s1 = s\<lparr>catalog := (catalog s)(i \<mapsto> p\<lparr>stock := stock p - q\<rparr>)\<rparr>"
  by (auto simp: Product_findOneAndUpdate_def Let_def split: option.splits if_splits)

lemma update_miss: "Product_findOneAndUpdate i q s = (None, s1) \<Longrightarrow> s1 = s"
  by (auto simp: Product_findOneAndUpdate_def Let_def split: option.splits if_splits)

lemma update_hit_stock:
  assumes "Product_findOneAndUpdate i q s = (Some u, s1)"
  shows "stock_of s1 j = (if j = i then stock_of s i - q else stock_of s j)"
    and "orders s1 = orders s" and "redis s1 = redis s" and "next_oid s1 = next_oid s"
  using update_hit [OF assms] by (auto simp: stock_of_def)

lemma update_keeps_nonneg:
  assumes "\<forall>i p. catalog s i = Some p \<longrightarrow> 0 \<le> stock p"
  shows "\<forall>j p. catalog (snd (Product_findOneAndUpdate i q s)) j = Some p \<longrightarrow> 0 \<le> stock p"
  using assms by (auto simp: Product_findOneAndUpdate_def Let_def split: option.splits if_splits)

lemma decrement_keeps_nonneg:
  "\<forall>i p. catalog s i = Some p \<longrightarrow> 0 \<le> stock p \<Longrightarrow>
     \<forall>j p. catalog (snd (decrement_stock n g ls s)) j = Some p \<longrightarrow> 0 \<le> stock p"
proof (induction ls arbitrary: s)
  case Nil
  then show ?case by simp
next
  case (Cons item rest)
  obtain r s1 where step: "Product_findOneAndUpdate (sl_productId item) (sl_quantity item) s = (r, s1)"
    by (cases "Product_findOneAndUpdate (sl_productId item) (sl_quantity item) s")
  have inv: "\<forall>j p. catalog s1 j = Some p \<longrightarrow> 0 \<le> stock p"
    using update_keeps_nonneg [OF Cons.prems, of "sl_productId item" "sl_quantity item"] step by simp
  show ?case
  proof (cases r)
    case None
    then show ?thesis
      using step inv by (simp add: redis_del_def Order_findByIdAndDelete_def)
  next
    case (Some u)
    then show ?thesis using step Cons.IH [OF inv] by simp
  qed
qed

lemma decrement_orders:
  "orders (snd (decrement_stock n g ls s)) =
     (case fst (decrement_stock n g ls s) of
        None \<Rightarrow> orders s
      | Some r \<Rightarrow> filter (\<lambda>x. oid x \<noteq> n) (orders s))"
proof (induction ls arbitrary: s)
  case Nil
  then show ?case by simp
next
  case (Cons item rest)
  obtain r s1 where step: "Product_findOneAndUpdate (sl_productId item) (sl_quantity item) s = (r, s1)"
    by (cases "Product_findOneAndUpdate (sl_productId item) (sl_quantity item) s")
  show ?case
  proof (cases r)
    case None
    then show ?thesis
      using step update_miss [of "sl_productId item" "sl_quantity item" s s1]
      by (simp add: redis_del_def Order_findByIdAndDelete_def)
  next
    case (Some u)
    then show ?thesis
      using step Cons.IH [of s1] update_hit_stock(2) [of "sl_productId item" "sl_quantity item" s u s1]
      by (simp split: option.splits)
  qed
qed

lemma sum_decrease_at:
  assumes "finite A" "i \<in> A"
  shows "(\<Sum>j\<in>A. if j = i then f i - q else f j) = (\<Sum>j\<in>A. f j) - (q::int)"
proof -
  have "(\<Sum>j\<in>A. if j = i then f i - q else f j) = (f i - q) + (\<Sum>j\<in>A - {i}. if j = i then f i - q else f j)"
    using assms by (simp add: sum.remove)
  also have "(\<Sum>j\<in>A - {i}. if j = i then f i - q else f j) = (\<Sum>j\<in>A - {i}. f j)"
    by (rule sum.cong) auto
  also have "(f i - q) + (\<Sum>j\<in>A - {i}. f j) = (\<Sum>j\<in>A. f j) - q"
    using assms by (simp add: sum.remove)
  finally show ?thesis .
qed

lemma decrement_total:
  "finite A \<Longrightarrow> set (map sl_productId ls) \<subseteq> A \<Longrightarrow> decrement_stock n g ls s = (None, s') \<Longrightarrow>
     (\<Sum>j\<in>A. stock_of s' j) = (\<Sum>j\<in>A. stock_of s j) - sum_list (map sl_quantity ls)"
proof (induction ls arbitrary: s)
  case Nil
  then show ?case by simp
next
  case (Cons item rest)
  obtain r s1 where step: "Product_findOneAndUpdate (sl_productId item) (sl_quantity item) s = (r, s1)"
    by (cases "Product_findOneAndUpdate (sl_productId item) (sl_quantity item) s")
  show ?case
  proof (cases r)
    case None
    then show ?thesis using step Cons.prems(3) by simp
  next
    case (Some u)
    have rest: "decrement_stock n g rest s1 = (None, s')"
      using step Some Cons.prems(3) by simp
    have "(\<Sum>j\<in>A. stock_of s' j) = (\<Sum>j\<in>A. stock_of s1 j) - sum_list (map sl_quantity rest)"
      using Cons.IH [OF Cons.prems(1) _ rest] Cons.prems(2) by simp
    moreover have "(\<Sum>j\<in>A. stock_of s1 j) = (\<Sum>j\<in>A. stock_of s j) - sl_quantity item"
      using update_hit_stock(1) [OF step [unfolded Some]]
        sum_decrease_at [of A "sl_productId item" "stock_of s" "sl_quantity item"] Cons.prems(1,2)
      by simp
    ultimately show ?thesis by simp
  qed
qed

lemma decrement_elsewhere:
  "i \<notin> set (map sl_productId ls) \<Longrightarrow> catalog (snd (decrement_stock n g ls s)) i = catalog s i"
proof (induction ls arbitrary: s)
  case Nil
  then show ?case by simp
next
  case (Cons item rest)
  obtain r s1 where step: "Product_findOneAndUpdate (sl_productId item) (sl_quantity item) s = (r, s1)"
    by (cases "Product_findOneAndUpdate (sl_productId item) (sl_quantity item) s")
  have here: "catalog s1 i = catalog s i"
    using step Cons.prems
    by (auto simp: Product_findOneAndUpdate_def Let_def split: option.splits if_splits)
  show ?case
  proof (cases r)
    case None
    then show ?thesis using step here by (simp add: redis_del_def Order_findByIdAndDelete_def)
  next
    case (Some u)
    then show ?thesis using step here Cons.IH [of s1] Cons.prems by simp
  qed
qed


lemma confirm_checks_Continue:
  assumes "confirm_checks pays req s = Continue (g, lp, rsv)"
  shows "cf_orderId req = Some g" "truthy g" "\<exists>rest. pays = Inr (lp # rest)"
    "payment_status lp = ''SUCCESS''" "Order_findOne g s = None"
    "redis_get (PENDING_KEY g) s = Some rsv"
    "\<not> (truthy_opt (userId rsv) \<and> cf_user req \<noteq> userId rsv)"
  using assms
  by (auto simp: confirm_checks_def Let_def
      split: option.splits sum.splits list.splits if_splits)

lemma checkoutSuccess_cases:
  "(\<exists>r. checkoutSuccess pays req s = (r, s) \<and>
        (status r = 200 \<longrightarrow> message r = Some ''Order already processed'')) \<or>
   (\<exists>g lp rsv. confirm_checks pays req s = Continue (g, lp, rsv) \<and>
        checkoutSuccess pays req s = on_error (materialize g lp rsv s))"
proof (cases "confirm_checks pays req s")
  case (Throw err)
  then show ?thesis
    by (simp add: checkoutSuccess_def checkoutSuccess_try_def on_error_def respond_def)
next
  case (Reply r)
  then have "status r = 200 \<longrightarrow> message r = Some ''Order already processed''"
    by (auto simp: confirm_checks_def Let_def respond_def
        split: option.splits sum.splits list.splits if_splits)
  then show ?thesis
    using Reply by (simp add: checkoutSuccess_def checkoutSuccess_try_def on_error_def)
next
  case (Continue t)
  then show ?thesis
    by (cases t) (auto simp: checkoutSuccess_def checkoutSuccess_try_def)
qed

lemma materialize_duplicate:
  "g \<in> set (map cashfreeOrderId (orders s)) \<Longrightarrow>
     materialize g lp rsv s = (Inl (DuplicateKeyError ''E11000 duplicate key error''), s)"
  by (simp add: materialize_def Order_create_def order_document_def)

lemma materialize_fresh:
  assumes "g \<notin> set (map cashfreeOrderId (orders s))"
  shows "materialize g lp rsv s =
     (let newOrder = (order_document g lp rsv)\<lparr>oid := next_oid s\<rparr>;
          s1 = s\<lparr>orders := orders s @ [newOrder], next_oid := Suc (next_oid s)\<rparr>
      in case decrement_stock (next_oid s) g (products rsv) s1 of
           (Some conflict, s2) \<Rightarrow> (Inr conflict, s2)
         | (None, s2) \<Rightarrow>
             (Inr (respond 200 True (Some ''Payment verified and order created'')
                     (OrderPayload newOrder)),
              redis_del (PENDING_KEY g) s2))"
  using assms by (simp add: materialize_def Order_create_def order_document_def Let_def)

lemma on_error_snd: "snd (on_error r) = snd r"
  by (cases r) (auto simp: on_error_def split: sum.splits)

lemma materialize_distinct:
  assumes "distinct (map cashfreeOrderId (orders s))"
  shows "distinct (map cashfreeOrderId (orders (snd (materialize g lp rsv s))))"
proof (cases "g \<in> set (map cashfreeOrderId (orders s))")
  case True
  then show ?thesis using assms by (simp add: materialize_duplicate)
next
  case False
  let ?new = "(order_document g lp rsv)\<lparr>oid := next_oid s\<rparr>"
  let ?s1 = "s\<lparr>orders := orders s @ [?new], next_oid := Suc (next_oid s)\<rparr>"
  have d1: "distinct (map cashfreeOrderId (orders ?s1))"
    using assms False by (simp add: order_document_def)
  have d2: "distinct (map cashfreeOrderId (orders (snd (decrement_stock (next_oid s) g (products rsv) ?s1))))"
    using d1 by (simp add: decrement_orders distinct_map_filter split: option.splits)
  obtain c s2 where run: "decrement_stock (next_oid s) g (products rsv) ?s1 = (c, s2)"
    by (cases "decrement_stock (next_oid s) g (products rsv) ?s1")
  show ?thesis
    using d2 run by (simp add: materialize_fresh [OF False] Let_def redis_del_def split: option.splits)
qed

lemma decrement_conflict_status:
  "fst (decrement_stock n g ls s) = Some x \<Longrightarrow> status x = 409"
proof (induction ls arbitrary: s)
  case Nil
  then show ?case by simp
next
  case (Cons item rest)
  then show ?case
    by (cases "Product_findOneAndUpdate (sl_productId item) (sl_quantity item) s")
       (auto simp: respond_def split: option.splits)
qed

lemma checkoutSuccess_created:
  assumes ok: "status (fst (checkoutSuccess pays req s)) = 200"
    and msg: "message (fst (checkoutSuccess pays req s)) = Some ''Payment verified and order created''"
  shows "\<exists>g lp rsv s2.
           cf_orderId req = Some g \<and> redis_get (PENDING_KEY g) s = Some rsv \<and>
           decrement_stock (next_oid s) g (products rsv)
             (s\<lparr>orders := orders s @ [(order_document g lp rsv)\<lparr>oid := next_oid s\<rparr>],
                next_oid := Suc (next_oid s)\<rparr>) = (None, s2) \<and>
           snd (checkoutSuccess pays req s) = redis_del (PENDING_KEY g) s2"
proof -
  from checkoutSuccess_cases [of pays req s] ok msg
  obtain g lp rsv where c: "confirm_checks pays req s = Continue (g, lp, rsv)"
    and run: "checkoutSuccess pays req s = on_error (materialize g lp rsv s)"
    by auto
  have fresh: "g \<notin> set (map cashfreeOrderId (orders s))"
    using confirm_checks_Continue(5) [OF c] by (simp add: Order_findOne_def find_None_iff_notin)
  let ?s1 = "s\<lparr>orders := orders s @ [(order_document g lp rsv)\<lparr>oid := next_oid s\<rparr>],
                next_oid := Suc (next_oid s)\<rparr>"
  obtain r s2 where d: "decrement_stock (next_oid s) g (products rsv) ?s1 = (r, s2)"
    by (cases "decrement_stock (next_oid s) g (products rsv) ?s1")
  have "r = None"
  proof (cases r)
    case None
    then show ?thesis .
  next
    case (Some x)
    then have "status x = 409"
      using decrement_conflict_status [of "next_oid s" g "products rsv" ?s1 x] d by simp
    then show ?thesis
      using ok Some d by (simp add: run materialize_fresh [OF fresh] Let_def on_error_def)
  qed
  then have "snd (checkoutSuccess pays req s) = redis_del (PENDING_KEY g) s2"
    using d by (simp add: run materialize_fresh [OF fresh] Let_def on_error_def)
  then show ?thesis
    using confirm_checks_Continue(1,6) [OF c] d \<open>r = None\<close> by blast
qed

lemma checkoutSuccess_keeps_nonneg:
  assumes "\<forall>i p. catalog s i = Some p \<longrightarrow> 0 \<le> stock p"
  shows "\<forall>i p. catalog (snd (checkoutSuccess pays req s)) i = Some p \<longrightarrow> 0 \<le> stock p"
proof -
  have mat: "\<forall>i p. catalog (snd (materialize g lp rsv s)) i = Some p \<longrightarrow> 0 \<le> stock p" for g lp rsv
  proof (cases "g \<in> set (map cashfreeOrderId (orders s))")
    case True
    then show ?thesis using assms by (simp add: materialize_duplicate)
  next
    case False
    let ?s1 = "s\<lparr>orders := orders s @ [(order_document g lp rsv)\<lparr>oid := next_oid s\<rparr>],
                  next_oid := Suc (next_oid s)\<rparr>"
    have "\<forall>i p. catalog ?s1 i = Some p \<longrightarrow> 0 \<le> stock p" using assms by simp
    from decrement_keeps_nonneg [OF this, of "next_oid s" g "products rsv"]
    show ?thesis
      by (cases "decrement_stock (next_oid s) g (products rsv) ?s1")
         (simp add: materialize_fresh [OF False] Let_def redis_del_def split: option.splits)
  qed
  show ?thesis
    using checkoutSuccess_cases [of pays req s] assms mat by (auto simp: on_error_snd)
qed

lemma createCheckoutSession_catalog:
  "catalog (snd (createCheckoutSession now rnd gw req s)) = catalog s"
  by (auto simp: createCheckoutSession_def createCheckoutSession_try_def redis_set_def Let_def
      split: option.splits list.splits sum.splits prod.splits)

text \<open>
  C4. Starting from a catalogue without negative stock, no stock is negative after
  \<^verbatim>\<open>checkoutSuccess\<close>, whatever its outcome, and \<^verbatim>\<open>createCheckoutSession\<close> does not touch the
  catalogue. A line's stock changes only through \<open>Product_findOneAndUpdate\<close>, the single
  conditional update: it leaves the store as it is when the stock is below the quantity,
  and takes exactly the quantity off otherwise. After a fully successful confirmation
  (answer 200, "Payment verified and order created") the stock of the ordered products
  has gone down, in total, by the sum of the ordered quantities, and no other catalogue
  entry has changed.
\<close>

theorem stock_changes_only_by_conditional_decrement:
  assumes nonneg: "\<forall>i p. catalog s i = Some p \<longrightarrow> 0 \<le> stock p"
  shows
    "(\<forall>i p. catalog (snd (checkoutSuccess pays req s)) i = Some p \<longrightarrow> 0 \<le> stock p) \<and>
     catalog (snd (createCheckoutSession now rnd gw creq s)) = catalog s \<and>
     (\<forall>i q p. catalog s i = Some p \<and> stock p < q \<longrightarrow> Product_findOneAndUpdate i q s = (None, s)) \<and>
     (\<forall>i q p. catalog s i = Some p \<and> q \<le> stock p \<longrightarrow>
        stock_of (snd (Product_findOneAndUpdate i q s)) i = stock p - q) \<and>
     (\<forall>g rsv.
        cf_orderId req = Some g \<and> redis_get (PENDING_KEY g) s = Some rsv \<and>
        status (fst (checkoutSuccess pays req s)) = 200 \<and>
        message (fst (checkoutSuccess pays req s)) = Some ''Payment verified and order created'' \<longrightarrow>
          (\<Sum>i\<in>set (map sl_productId (products rsv)).
              stock_of s i - stock_of (snd (checkoutSuccess pays req s)) i)
            = sum_list (map sl_quantity (products rsv)) \<and>
          (\<forall>i. i \<notin> set (map sl_productId (products rsv)) \<longrightarrow>
               catalog (snd (checkoutSuccess pays req s)) i = catalog s i))"
proof -
  have total: "(\<Sum>i\<in>set (map sl_productId (products rsv)).
              stock_of s i - stock_of (snd (checkoutSuccess pays req s)) i)
            = sum_list (map sl_quantity (products rsv)) \<and>
          (\<forall>i. i \<notin> set (map sl_productId (products rsv)) \<longrightarrow>
               catalog (snd (checkoutSuccess pays req s)) i = catalog s i)"
    if a: "cf_orderId req = Some g" "redis_get (PENDING_KEY g) s = Some rsv"
      "status (fst (checkoutSuccess pays req s)) = 200"
      "message (fst (checkoutSuccess pays req s)) = Some ''Payment verified and order created''"
    for g rsv
  proof -
    from checkoutSuccess_created [OF a(3,4)] a(1,2)
    obtain lp s2 where
      d: "decrement_stock (next_oid s) g (products rsv)
             (s\<lparr>orders := orders s @ [(order_document g lp rsv)\<lparr>oid := next_oid s\<rparr>],
                next_oid := Suc (next_oid s)\<rparr>) = (None, s2)"
      and fin: "snd (checkoutSuccess pays req s) = redis_del (PENDING_KEY g) s2"
      by auto
    let ?s1 = "s\<lparr>orders := orders s @ [(order_document g lp rsv)\<lparr>oid := next_oid s\<rparr>],
                next_oid := Suc (next_oid s)\<rparr>"
    let ?A = "set (map sl_productId (products rsv))"
    have s1: "stock_of ?s1 = stock_of s" by (rule ext) (simp add: stock_of_def)
    have fin_stock: "stock_of (snd (checkoutSuccess pays req s)) = stock_of s2"
      by (rule ext) (simp add: fin stock_of_def redis_del_def)
    have "(\<Sum>j\<in>?A. stock_of s2 j) = (\<Sum>j\<in>?A. stock_of s j) - sum_list (map sl_quantity (products rsv))"
      using decrement_total [OF _ _ d, of ?A] by (simp add: s1)
    then have A: "(\<Sum>i\<in>?A. stock_of s i - stock_of (snd (checkoutSuccess pays req s)) i)
            = sum_list (map sl_quantity (products rsv))"
      by (simp add: fin_stock sum_subtractf)
    have B: "catalog (snd (checkoutSuccess pays req s)) i = catalog s i" if "i \<notin> ?A" for i
      using decrement_elsewhere [OF that, of "next_oid s" g ?s1] d
      by (simp add: fin redis_del_def)
    show ?thesis using A B by blast
  qed
  have closed: "Product_findOneAndUpdate i q s = (None, s)" if "catalog s i = Some p" "stock p < q" for i q p
    using that by (simp add: Product_findOneAndUpdate_def)
  have dec: "stock_of (snd (Product_findOneAndUpdate i q s)) i = stock p - q"
    if "catalog s i = Some p" "q \<le> stock p" for i q p
    using that by (simp add: Product_findOneAndUpdate_def stock_of_def Let_def)
  show ?thesis
    using checkoutSuccess_keeps_nonneg [OF nonneg, of pays req] createCheckoutSession_catalog [of now rnd gw creq s]
      total closed dec
    by blast
qed


lemma booked_nonneg: "0 \<le> m \<Longrightarrow> \<forall>i p. catalog (booked m) i = Some p \<longrightarrow> 0 \<le> stock p"
  by (auto simp: shop_defs redis_set_def split: if_splits)

lemma confirm_booked:
  "2 \<le> m \<Longrightarrow> fst (checkoutSuccess paid (confirm_by ''u1'') (booked m)) =
     respond 200 True (Some ''Payment verified and order created'') (OrderPayload booked_order)"
  by (simp add: shop_defs store_defs confirm_defs Let_def truthy_def)

theorem stock_changes_only_by_conditional_decrement_witness:
  "fst (checkoutSuccess paid (confirm_by ''u1'') (booked 5)) =
     respond 200 True (Some ''Payment verified and order created'') (OrderPayload booked_order) \<and>
   0 \<le> stock_of (snd (checkoutSuccess paid (confirm_by ''u1'') (booked 5))) frame_id \<and>
   0 \<le> stock_of (snd (checkoutSuccess paid (confirm_by ''u1'') (booked 5))) motor_id \<and>
   (\<Sum>i\<in>{frame_id, motor_id}.
       stock_of (booked 5) i - stock_of (snd (checkoutSuccess paid (confirm_by ''u1'') (booked 5))) i) = 3"
proof -
  let ?s' = "snd (checkoutSuccess paid (confirm_by ''u1'') (booked 5))"
  have h: "\<forall>i p. catalog (booked 5) i = Some p \<longrightarrow> 0 \<le> stock p"
    by (rule booked_nonneg) simp
  have r: "fst (checkoutSuccess paid (confirm_by ''u1'') (booked 5)) =
     respond 200 True (Some ''Payment verified and order created'') (OrderPayload booked_order)"
    by (rule confirm_booked) simp
  have pre: "cf_orderId (confirm_by ''u1'') = Some ''XRF_7_K'' \<and>
        redis_get (PENDING_KEY ''XRF_7_K'') (booked 5) = Some booking \<and>
        status (fst (checkoutSuccess paid (confirm_by ''u1'') (booked 5))) = 200 \<and>
        message (fst (checkoutSuccess paid (confirm_by ''u1'') (booked 5))) =
          Some ''Payment verified and order created''"
    by (simp add: r respond_def) (simp add: confirm_by_def booked_def redis_get_def redis_set_def)
  have ids: "sl_productId ` set (products booking) = {frame_id, motor_id}"
    by (simp add: booking_def)
  have q: "sum_list (map sl_quantity (products booking)) = 3"
    by (simp add: booking_def)
  from stock_changes_only_by_conditional_decrement [OF h, of paid "confirm_by ''u1''"] pre
  have "(\<forall>i p. catalog ?s' i = Some p \<longrightarrow> 0 \<le> stock p) \<and>
     (\<Sum>i\<in>set (map sl_productId (products booking)). stock_of (booked 5) i - stock_of ?s' i)
       = sum_list (map sl_quantity (products booking))"
    by blast
  then have "(\<forall>i. 0 \<le> stock_of ?s' i) \<and>
     (\<Sum>i\<in>{frame_id, motor_id}. stock_of (booked 5) i - stock_of ?s' i) = 3"
    by (simp add: ids q stock_of_def split: option.splits)
  then show ?thesis using r by simp
qed

text \<open>
  C2 asks that a stock conflict at line \<open>k\<close> deletes the new Order and the reservation,
  answers 409 and gives back the stock already taken for the lines before \<open>k\<close>. The
  handler does the first three and not the last: with five frames and one motor in
  stock, confirming the reservation for one frame and two motors answers 409, leaves no
  Order and no reservation, and leaves four frames in stock.
\<close>

theorem conflict_leaves_earlier_decrement:
  "fst (checkoutSuccess paid (confirm_by ''u1'') (booked 1)) =
     respond 409 False
       (Some ''Insufficient stock for Motor. Please update your cart and try again.'') NoPayload \<and>
   orders (snd (checkoutSuccess paid (confirm_by ''u1'') (booked 1))) = [] \<and>
   redis_get (PENDING_KEY ''XRF_7_K'') (snd (checkoutSuccess paid (confirm_by ''u1'') (booked 1))) = None \<and>
   stock_of (booked 1) frame_id = 5 \<and>
   stock_of (snd (checkoutSuccess paid (confirm_by ''u1'') (booked 1))) frame_id = 4 \<and>
   stock_of (snd (checkoutSuccess paid (confirm_by ''u1'') (booked 1))) motor_id = 1"
  by (simp add: shop_defs store_defs confirm_defs stock_of_def Let_def truthy_def)





text \<open>
  C1 as stated fails twice. The look-up of an existing Order is not the first check: with
  an Order stored for the id and no successful payment reported, the answer is the 400
  of the payment check and the Order is not returned. And a second confirmation whose
  checks ran before the first one wrote, and whose \<^verbatim>\<open>Order.create\<close> then meets the unique
  index, is answered 500 with the duplicate-key message, not as already materialized.
\<close>

theorem existing_order_check_counterexample:
  "Order_findOne ''XRF_7_K'' (placed ''pending'') = Some booked_order \<and>
   checkoutSuccess unpaid (confirm_by ''u1'') (placed ''pending'') =
     (respond 400 False (Some ''Payment not completed'') (StatusPayload ''PENDING''),
      placed ''pending'') \<and>
   confirm_checks paid (confirm_by ''u1'') (booked 5) =
     Continue (''XRF_7_K'', \<lparr>payment_status = ''SUCCESS'', pay_cf_payment_id = Some ''885''\<rparr>, booking) \<and>
   on_error (materialize ''XRF_7_K'' \<lparr>payment_status = ''SUCCESS'', pay_cf_payment_id = Some ''885''\<rparr>
               booking (snd (checkoutSuccess paid (confirm_by ''u1'') (booked 5)))) =
     (respond 500 False (Some ''E11000 duplicate key error'') NoPayload,
      snd (checkoutSuccess paid (confirm_by ''u1'') (booked 5)))"
proof -
  have a: "Order_findOne ''XRF_7_K'' (placed ''pending'') = Some booked_order"
    by (simp add: shop_defs store_defs)
  have b: "checkoutSuccess unpaid (confirm_by ''u1'') (placed ''pending'') =
     (respond 400 False (Some ''Payment not completed'') (StatusPayload ''PENDING''),
      placed ''pending'')"
    by (simp add: confirm_defs unpaid_def confirm_by_def truthy_def respond_def)
  have c: "confirm_checks paid (confirm_by ''u1'') (booked 5) =
     Continue (''XRF_7_K'', \<lparr>payment_status = ''SUCCESS'', pay_cf_payment_id = Some ''885''\<rparr>, booking)"
    by (simp add: confirm_checks_def paid_def confirm_by_def truthy_def booked_def shop_def
        store_defs) (simp add: booking_def truthy_def)
  have "orders (snd (checkoutSuccess paid (confirm_by ''u1'') (booked 5))) = [booked_order]"
    by (simp add: shop_defs store_defs confirm_defs Let_def truthy_def)
  then have "''XRF_7_K'' \<in> set (map cashfreeOrderId
               (orders (snd (checkoutSuccess paid (confirm_by ''u1'') (booked 5)))))"
    by (simp add: booked_order_def)
  then have d: "on_error (materialize ''XRF_7_K'' \<lparr>payment_status = ''SUCCESS'', pay_cf_payment_id = Some ''885''\<rparr>
               booking (snd (checkoutSuccess paid (confirm_by ''u1'') (booked 5)))) =
     (respond 500 False (Some ''E11000 duplicate key error'') NoPayload,
      snd (checkoutSuccess paid (confirm_by ''u1'') (booked 5)))"
    by (simp add: materialize_duplicate on_error_def truthy_def)
  show ?thesis using a b c d by simp
qed

text \<open>
  C1, amended. When the gateway reports a successful latest payment and an Order exists
  for the gateway order id, \<^verbatim>\<open>checkoutSuccess\<close> answers 200 with that Order and leaves the
  store unchanged. No confirmation ever stores a second Order for an id: the gateway
  order ids of the stored Orders stay pairwise distinct, after the whole handler and
  after its write phase run on any store (so also when another confirmation wrote in
  between). A write that meets the unique index stores nothing and is answered by the
  handler's \<^verbatim>\<open>catch\<close> with 500 and the duplicate-key message.
\<close>

theorem one_order_per_gateway_id:
  "(\<forall>g lp rest ord.
      cf_orderId req = Some g \<and> truthy g \<and> pays = Inr (lp # rest) \<and>
      payment_status lp = ''SUCCESS'' \<and> Order_findOne g s = Some ord \<longrightarrow>
        checkoutSuccess pays req s =
          (respond 200 True (Some ''Order already processed'') (OrderPayload ord), s)) \<and>
   (distinct (map cashfreeOrderId (orders s)) \<longrightarrow>
      distinct (map cashfreeOrderId (orders (snd (checkoutSuccess pays req s))))) \<and>
   (distinct (map cashfreeOrderId (orders s)) \<longrightarrow>
      distinct (map cashfreeOrderId (orders (snd (on_error (materialize k p rsv s)))))) \<and>
   (k \<in> set (map cashfreeOrderId (orders s)) \<longrightarrow>
      on_error (materialize k p rsv s) =
        (respond 500 False (Some ''E11000 duplicate key error'') NoPayload, s))"
proof -
  have first: "checkoutSuccess pays req s =
          (respond 200 True (Some ''Order already processed'') (OrderPayload ord), s)"
    if "cf_orderId req = Some g" "truthy g" "pays = Inr (lp # rest)"
      "payment_status lp = ''SUCCESS''" "Order_findOne g s = Some ord" for g lp rest ord
    using that
    by (simp add: checkoutSuccess_def checkoutSuccess_try_def on_error_def confirm_checks_def)
  have inv: "distinct (map cashfreeOrderId (orders (snd (checkoutSuccess pays req s))))"
    if "distinct (map cashfreeOrderId (orders s))"
    using checkoutSuccess_cases [of pays req s] that materialize_distinct [OF that]
    by (auto simp: on_error_snd)
  have inv': "distinct (map cashfreeOrderId (orders (snd (on_error (materialize k p rsv s)))))"
    if "distinct (map cashfreeOrderId (orders s))"
    using materialize_distinct [OF that] by (simp add: on_error_snd)
  have dup: "on_error (materialize k p rsv s) =
        (respond 500 False (Some ''E11000 duplicate key error'') NoPayload, s)"
    if "k \<in> set (map cashfreeOrderId (orders s))"
    using that by (simp add: materialize_duplicate on_error_def truthy_def)
  show ?thesis using first inv inv' dup by blast
qed

theorem one_order_per_gateway_id_witness:
  "checkoutSuccess paid (confirm_by ''u1'') (placed ''pending'') =
     (respond 200 True (Some ''Order already processed'') (OrderPayload booked_order),
      placed ''pending'') \<and>
   distinct (map cashfreeOrderId (orders (snd (checkoutSuccess paid (confirm_by ''u1'') (booked 5))))) \<and>
   on_error (materialize ''XRF_7_K'' \<lparr>payment_status = ''SUCCESS'', pay_cf_payment_id = Some ''885''\<rparr>
               booking (placed ''pending'')) =
     (respond 500 False (Some ''E11000 duplicate key error'') NoPayload, placed ''pending'')"
proof -
  let ?lp = "\<lparr>payment_status = ''SUCCESS'', pay_cf_payment_id = Some ''885''\<rparr>"
  have pre: "cf_orderId (confirm_by ''u1'') = Some ''XRF_7_K'' \<and> truthy ''XRF_7_K'' \<and>
      paid = Inr (?lp # []) \<and> payment_status ?lp = ''SUCCESS'' \<and>
      Order_findOne ''XRF_7_K'' (placed ''pending'') = Some booked_order"
    by (simp add: shop_defs store_defs truthy_def)
  have A: "checkoutSuccess paid (confirm_by ''u1'') (placed ''pending'') =
     (respond 200 True (Some ''Order already processed'') (OrderPayload booked_order),
      placed ''pending'')"
    using one_order_per_gateway_id [of "confirm_by ''u1''" paid "placed ''pending''"] pre by blast
  have "distinct (map cashfreeOrderId (orders (booked 5)))"
    by (simp add: booked_def shop_def redis_set_def)
  then have B: "distinct (map cashfreeOrderId (orders (snd (checkoutSuccess paid (confirm_by ''u1'') (booked 5)))))"
    using one_order_per_gateway_id [of "confirm_by ''u1''" paid "booked 5"] by blast
  have "''XRF_7_K'' \<in> set (map cashfreeOrderId (orders (placed ''pending'')))"
    by (simp add: placed_def booked_order_def)
  then have C: "on_error (materialize ''XRF_7_K'' ?lp booking (placed ''pending'')) =
     (respond 500 False (Some ''E11000 duplicate key error'') NoPayload, placed ''pending'')"
    using one_order_per_gateway_id [of _ _ "placed ''pending''" "''XRF_7_K''" ?lp booking] by blast
  show ?thesis using A B C by simp
qed

end
